theory Spec2Isabelle
  imports Main
begin

section \<open>Shared data model\<close>

text \<open>
  Instants of Go's \<open>time.Time\<close> are integers: nanoseconds counted from the zero instant
  (January 1, year 1, UTC), so that \<open>IsZero\<close> is equality with 0, \<open>Before\<close> is \<open><\<close>,
  \<open>After\<close> is \<open>>\<close> and \<open>Add\<close> is \<open>+\<close>. The instants a \<open>time.Time\<close> can hold span
  64 bits of seconds; this range is not modelled. A \<open>time.Duration\<close> is an \<open>int64\<close> of
  nanoseconds, and arithmetic on durations wraps around: \<open>int64\<close> is the value a Go
  \<open>int64\<close> holds after an operation whose exact result is the argument.
\<close>

type_synonym time = int
type_synonym duration = int

definition int64 :: "int \<Rightarrow> int" where
  "int64 x = (x + 9223372036854775808) mod 18446744073709551616 - 9223372036854775808"

definition IsZero :: "time \<Rightarrow> bool" where
  "IsZero t = (t = 0)"

text \<open>\<open>v1alpha1.Phase\<close> is a string type in the source; these are its named constants.\<close>

datatype Phase =
  PhaseUninitialized | PhasePending | PhaseRunning | PhaseSuccess | PhaseFailed | PhaseChaos

text \<open>
  \<open>metav1.Condition\<close>, with the fields the controllers write. The zero value of the struct
  has every string empty. The transition time and the observed generation are left out.
\<close>

record Condition =
  CondType :: string
  CondStatus :: string
  CondReason :: string
  CondMessage :: string

definition ConditionTrue :: string where
  "ConditionTrue = ''True''"

definition zeroCondition :: Condition where
  "zeroCondition = \<lparr>CondType = [], CondStatus = [], CondReason = [], CondMessage = []\<rparr>"

text \<open>
  \<open>v1alpha1.Lifecycle\<close>. The struct is written with \<open>Kind\<close>, \<open>Name\<close>, \<open>StartTime\<close> and
  \<open>EndTime\<close> by the lifecycle accessors and with \<open>Phase\<close>, \<open>Reason\<close>, \<open>Message\<close> by the
  controllers; \<open>Conditions\<close> is reached through the embedded Lifecycle of a status
  (\<open>cr.Status.Conditions\<close> where \<open>CallStatus\<close> declares no such field of its own).
  A struct literal leaves the fields it does not name at their zero value.
\<close>

record Lifecycle =
  Kind :: string
  Name :: string
  Phase :: Phase
  Reason :: string
  Message :: string
  StartTime :: "time option"
  EndTime :: "time option"
  Conditions :: "Condition list"

definition zeroLifecycle :: Lifecycle where
  "zeroLifecycle = \<lparr>Kind = [], Name = [], Phase = PhaseUninitialized, Reason = [], Message = [],
     StartTime = None, EndTime = None, Conditions = []\<rparr>"

section \<open>Container lifecycle accessor (controllers/common/lifecycle/accessor.go)\<close>

text \<open>\<open>strings.HasPrefix\<close> and \<open>strings.Contains\<close> on byte strings.\<close>

fun HasPrefix :: "string \<Rightarrow> string \<Rightarrow> bool" where
  "HasPrefix s [] = True"
| "HasPrefix [] (p # ps) = False"
| "HasPrefix (c # cs) (p # ps) = (c = p \<and> HasPrefix cs ps)"

fun Contains :: "string \<Rightarrow> string \<Rightarrow> bool" where
  "Contains [] substr = HasPrefix [] substr"
| "Contains (c # cs) substr = (HasPrefix (c # cs) substr \<or> Contains cs substr)"

text \<open>
  The parts of \<open>corev1.ContainerStatus\<close> that the accessor reads. The three pointers of
  \<open>corev1.ContainerState\<close> are \<open>StateWaiting\<close>, \<open>StateRunning\<close> and \<open>StateTerminated\<close>
  here (\<open>Running\<close> names a field of \<open>WaitSpec\<close> below).
\<close>

record ContainerStateWaiting =
  WaitingReason :: string

record ContainerStateRunning =
  RunningStartedAt :: time

record ContainerStateTerminated =
  ExitCode :: int
  TerminatedReason :: string
  TerminatedStartedAt :: time
  FinishedAt :: time

record ContainerState =
  StateWaiting :: "ContainerStateWaiting option"
  StateRunning :: "ContainerStateRunning option"
  StateTerminated :: "ContainerStateTerminated option"

record ContainerStatus =
  ContainerName :: string
  State :: ContainerState

record Pod =
  ContainerStatuses :: "ContainerStatus list"

text \<open>
  The body of the loop of \<open>Containers\<close> for one container status, given the lifecycles
  collected so far: a container whose name contains \<open>-\<close> is skipped (\<open>continue\<close>), else
  the first non-nil state of the \<open>switch\<close> appends one entry, and no entry is appended when
  all three states are nil.
\<close>

definition Containers_step :: "Lifecycle list \<Rightarrow> ContainerStatus \<Rightarrow> Lifecycle list" where
  "Containers_step lifecycles container =
    (if Contains (ContainerName container) ''-'' then lifecycles
     else case StateWaiting (State container) of
       Some state \<Rightarrow> lifecycles @ [zeroLifecycle\<lparr>Kind := ''Container'',
           Name := ContainerName container, Phase := PhasePending,
           Reason := WaitingReason state, StartTime := None, EndTime := None\<rparr>]
     | None \<Rightarrow> (case StateRunning (State container) of
         Some state \<Rightarrow> lifecycles @ [zeroLifecycle\<lparr>Kind := ''Container'',
             Name := ContainerName container, Phase := PhaseRunning,
             Reason := ''container is started'',
             StartTime := Some (RunningStartedAt state), EndTime := None\<rparr>]
       | None \<Rightarrow> (case StateTerminated (State container) of
           Some state \<Rightarrow>
             (if ExitCode state = 0
              then lifecycles @ [zeroLifecycle\<lparr>Kind := ''Container'',
                  Name := ContainerName container, Phase := PhaseSuccess,
                  Reason := TerminatedReason state,
                  StartTime := Some (TerminatedStartedAt state),
                  EndTime := Some (FinishedAt state)\<rparr>]
              else lifecycles @ [zeroLifecycle\<lparr>Kind := ''Container'',
                  Name := ContainerName container, Phase := PhaseFailed,
                  Reason := TerminatedReason state,
                  StartTime := Some (TerminatedStartedAt state),
                  EndTime := Some (FinishedAt state)\<rparr>])
         | None \<Rightarrow> lifecycles)))"

definition Containers :: "Pod \<Rightarrow> Lifecycle list" where
  "Containers pod = foldl Containers_step [] (ContainerStatuses pod)"

section \<open>Actions, the Classifier view and the logical scheduler (controllers/scenario/scheduler.go)\<close>

text \<open>
  \<open>lifecycle.ClassifierReader\<close> is an interface whose implementation is outside the
  sources at hand: a view is the record of what its methods answer.
\<close>

record ClassifierReader =
  IsSuccessful :: "string \<Rightarrow> bool"
  IsRunning :: "string \<Rightarrow> bool"
  NumPendingJobs :: int
  NumRunningJobs :: int
  NumSuccessfulJobs :: int
  NumFailedJobs :: int
  PendingList :: "string list"
  RunningList :: "string list"
  SuccessfulList :: "string list"
  FailedList :: "string list"

text \<open>
  \<open>v1alpha1.ConditionalExpr\<close> (used for \<open>assert\<close> and \<open>until\<close>) with its state and metrics
  expressions. Its methods are not among the sources; they are taken as: \<open>IsZero\<close> holds of
  a nil pointer and of two empty expressions, \<open>HasStateExpr\<close> and \<open>HasMetricsExpr\<close> test
  for a non-empty expression.
\<close>

record ConditionalExpr =
  StateExpr :: string
  MetricsExpr :: string

definition HasStateExpr :: "ConditionalExpr \<Rightarrow> bool" where
  "HasStateExpr e = (StateExpr e \<noteq> [])"

definition HasMetricsExpr :: "ConditionalExpr \<Rightarrow> bool" where
  "HasMetricsExpr e = (MetricsExpr e \<noteq> [])"

definition ExprIsZero :: "ConditionalExpr option \<Rightarrow> bool" where
  "ExprIsZero e = (case e of None \<Rightarrow> True | Some x \<Rightarrow> StateExpr x = [] \<and> MetricsExpr x = [])"

record WaitSpec =
  Success :: "string list"
  Running :: "string list"
  After :: "duration option"

record DeleteSpec =
  Jobs :: "string list"

text \<open>
  \<open>v1alpha1.EmbedActions\<close>: one pointer per action type. Only the presence of a payload
  and the job list of a deletion are read by the code modelled here.
\<close>

record EmbedActions =
  Service :: "unit option"
  Cluster :: "unit option"
  Chaos :: "unit option"
  Cascade :: "unit option"
  Delete :: "DeleteSpec option"
  Call :: "unit option"

record Action =
  ActionType :: string
  ActionName :: string
  DependsOn :: "WaitSpec option"
  Assert :: "ConditionalExpr option"
  Embed :: "EmbedActions option"

definition ActionService :: string where "ActionService = ''Service''"
definition ActionCluster :: string where "ActionCluster = ''Cluster''"
definition ActionChaos :: string where "ActionChaos = ''Chaos''"
definition ActionCascade :: string where "ActionCascade = ''Cascade''"
definition ActionDelete :: string where "ActionDelete = ''Delete''"
definition ActionCall :: string where "ActionCall = ''Call''"

text \<open>
  The local variables of \<open>GetNextLogicalJob\<close>. The function reads the wall clock
  (\<open>metav1.Now()\<close>) inside \<open>timeOK\<close>, once for every call that finds \<open>After\<close> set: the clock
  is a sequence of readings and \<open>reads\<close> counts those taken so far.
\<close>

record scheduler_vars =
  schedule :: "Action list"
  nextCycle :: time
  reads :: nat

fun successOK_loop :: "ClassifierReader \<Rightarrow> string list \<Rightarrow> bool" where
  "successOK_loop gs [] = True"
| "successOK_loop gs (dep # deps) = (if \<not> IsSuccessful gs dep then False else successOK_loop gs deps)"

definition successOK :: "ClassifierReader \<Rightarrow> WaitSpec \<Rightarrow> bool" where
  "successOK gs deps = successOK_loop gs (Success deps)"

fun runningOK_loop :: "ClassifierReader \<Rightarrow> string list \<Rightarrow> bool" where
  "runningOK_loop gs [] = True"
| "runningOK_loop gs (dep # deps) = (if \<not> IsRunning gs dep then False else runningOK_loop gs deps)"

definition runningOK :: "ClassifierReader \<Rightarrow> WaitSpec \<Rightarrow> bool" where
  "runningOK gs deps = runningOK_loop gs (Running deps)"

definition timeOK :: "time \<Rightarrow> (nat \<Rightarrow> time) \<Rightarrow> WaitSpec \<Rightarrow> scheduler_vars \<Rightarrow> bool \<times> scheduler_vars" where
  "timeOK timebase clock deps vars =
    (case After deps of
       Some dur \<Rightarrow>
         (let cur = clock (reads vars);
              vars1 = vars\<lparr>reads := Suc (reads vars)\<rparr>;
              deadline = timebase + dur
          in if deadline < cur then (True, vars1)
             else if IsZero (nextCycle vars1) then (False, vars1\<lparr>nextCycle := deadline\<rparr>)
             else if deadline < nextCycle vars1 then (False, vars1\<lparr>nextCycle := deadline\<rparr>)
             else (False, vars1))
     | None \<Rightarrow> (True, vars))"

text \<open>
  One round of the loop over \<open>all\<close>. The three tests are joined by \<open>||\<close>, which evaluates
  \<open>timeOK\<close> (and so reads the clock and updates \<open>nextCycle\<close>) only when both \<open>successOK\<close> and
  \<open>runningOK\<close> hold.
\<close>

definition GetNextLogicalJob_step ::
  "time \<Rightarrow> ClassifierReader \<Rightarrow> (string \<rightharpoonup> ConditionalExpr) \<Rightarrow> (nat \<Rightarrow> time) \<Rightarrow>
   scheduler_vars \<Rightarrow> Action \<Rightarrow> scheduler_vars" where
  "GetNextLogicalJob_step timebase gs executed clock vars action =
    (case executed (ActionName action) of
       Some _ \<Rightarrow> vars
     | None \<Rightarrow>
        (case DependsOn action of
           None \<Rightarrow> vars\<lparr>schedule := schedule vars @ [action]\<rparr>
         | Some deps \<Rightarrow>
            (if \<not> successOK gs deps then vars
             else if \<not> runningOK gs deps then vars
             else (case timeOK timebase clock deps vars of
                     (ok, vars') \<Rightarrow>
                       if \<not> ok then vars' else vars'\<lparr>schedule := schedule vars' @ [action]\<rparr>))))"

definition GetNextLogicalJob ::
  "time \<Rightarrow> Action list \<Rightarrow> ClassifierReader \<Rightarrow> (string \<rightharpoonup> ConditionalExpr) \<Rightarrow> (nat \<Rightarrow> time) \<Rightarrow>
   Action list \<times> time" where
  "GetNextLogicalJob timebase all gs executed clock =
    (let vars = foldl (GetNextLogicalJob_step timebase gs executed clock)
                  \<lparr>schedule = [], nextCycle = 0, reads = 0\<rparr> all
     in (schedule vars, nextCycle vars))"

text \<open>A clock that stands still at \<open>now\<close> for the whole invocation.\<close>

definition fixedClock :: "time \<Rightarrow> nat \<Rightarrow> time" where
  "fixedClock now k = now"

text \<open>
  The readiness test the scheduler applies to one action when the clock stands at \<open>now\<close>:
  not executed, every success dependency successful, every running dependency running,
  and \<open>After\<close> absent or its deadline strictly before \<open>now\<close>.
\<close>

definition ready :: "time \<Rightarrow> ClassifierReader \<Rightarrow> (string \<rightharpoonup> ConditionalExpr) \<Rightarrow> time \<Rightarrow> Action \<Rightarrow> bool" where
  "ready timebase gs executed now action =
    (executed (ActionName action) = None \<and>
     (case DependsOn action of
        None \<Rightarrow> True
      | Some deps \<Rightarrow>
          list_all (IsSuccessful gs) (Success deps) \<and>
          list_all (IsRunning gs) (Running deps) \<and>
          (case After deps of None \<Rightarrow> True | Some dur \<Rightarrow> timebase + dur < now)))"

text \<open>
  The readiness test in the words of the specification: as \<open>ready\<close>, but with the time
  condition \<open>timebase + after \<le> now\<close>.
\<close>

definition spec_ready :: "time \<Rightarrow> ClassifierReader \<Rightarrow> (string \<rightharpoonup> ConditionalExpr) \<Rightarrow> time \<Rightarrow> Action \<Rightarrow> bool" where
  "spec_ready timebase gs executed now action =
    (executed (ActionName action) = None \<and>
     (case DependsOn action of
        None \<Rightarrow> True
      | Some deps \<Rightarrow>
          list_all (IsSuccessful gs) (Success deps) \<and>
          list_all (IsRunning gs) (Running deps) \<and>
          (case After deps of None \<Rightarrow> True | Some dur \<Rightarrow> timebase + dur \<le> now)))"

text \<open>Concrete inputs: an empty view and one action that waits five nanoseconds.\<close>

definition emptyView :: ClassifierReader where
  "emptyView = \<lparr>IsSuccessful = (\<lambda>n. False), IsRunning = (\<lambda>n. False),
     NumPendingJobs = 0, NumRunningJobs = 0, NumSuccessfulJobs = 0, NumFailedJobs = 0,
     PendingList = [], RunningList = [], SuccessfulList = [], FailedList = []\<rparr>"

definition plainAction :: "string \<Rightarrow> Action" where
  "plainAction n = \<lparr>ActionType = ActionService, ActionName = n, DependsOn = None, Assert = None,
     Embed = Some \<lparr>Service = Some (), Cluster = None, Chaos = None, Cascade = None,
       Delete = None, Call = None\<rparr>\<rparr>"

definition waitingAction :: Action where
  "waitingAction = (plainAction ''b'')\<lparr>DependsOn := Some \<lparr>Success = [], Running = [], After = Some 5\<rparr>\<rparr>"

definition laterClock :: "time \<Rightarrow> time \<Rightarrow> nat \<Rightarrow> time" where
  "laterClock first rest k = (if k = 0 then first else rest)"

definition secondWaitingAction :: Action where
  "secondWaitingAction =
     (plainAction ''c'')\<lparr>DependsOn := Some \<lparr>Success = [], Running = [], After = Some 5\<rparr>\<rparr>"

text \<open>
  The actions for which the scheduler evaluates \<open>timeOK\<close> with \<open>After\<close> set, and so reads
  the clock: not executed, success and running dependencies met, \<open>After\<close> present. The
  reading taken for an action is numbered by the count of such actions before it in the
  list: \<open>readingIndex\<close> gives that number for every action of the list, counting from \<open>k\<close>.
\<close>

definition consultsClock :: "ClassifierReader \<Rightarrow> (string \<rightharpoonup> ConditionalExpr) \<Rightarrow> Action \<Rightarrow> bool" where
  "consultsClock gs executed action =
    (executed (ActionName action) = None \<and>
     (case DependsOn action of
        None \<Rightarrow> False
      | Some deps \<Rightarrow>
          list_all (IsSuccessful gs) (Success deps) \<and>
          list_all (IsRunning gs) (Running deps) \<and>
          After deps \<noteq> None))"

fun readingIndex ::
  "ClassifierReader \<Rightarrow> (string \<rightharpoonup> ConditionalExpr) \<Rightarrow> nat \<Rightarrow> Action list \<Rightarrow> nat list" where
  "readingIndex gs executed k [] = []"
| "readingIndex gs executed k (action # rest) =
     k # readingIndex gs executed (if consultsClock gs executed action then Suc k else k) rest"

section \<open>Time scheduler (pkg/netutils/ip.go, package scheduler)\<close>

record SchedulerSpec =
  Cron :: "string option"
  StartingDeadlineSeconds :: "int option"

datatype sched_error =
  UnparseableSchedule string string
| TooManyMissedStartTimes

definition Second :: duration where
  "Second = 1000000000"

text \<open>
  The loop \<open>for t := sched.Next(earliestTime); !t.After(cur); t = sched.Next(t)\<close> with its
  counter \<open>starts\<close>. A cron schedule is the function \<open>sched.Next\<close>, any function from an
  instant to an instant. The result is \<open>lastMissed\<close>, the value of \<open>starts\<close> when the loop
  is left, and whether it was left through the \<open>starts > 100\<close> return.
\<close>

function missedLoop :: "(time \<Rightarrow> time) \<Rightarrow> time \<Rightarrow> time \<Rightarrow> int \<Rightarrow> time \<Rightarrow> time \<times> int \<times> bool" where
  "missedLoop sched cur t starts lastMissed =
    (if cur < t then (lastMissed, starts, False)
     else if starts + 1 > 100 then (t, starts + 1, True)
     else missedLoop sched cur (sched t) (starts + 1) t)"
  by pat_completeness auto
termination
  by (relation "measure (\<lambda>(sched, cur, t, starts, lastMissed). nat (100 - starts))") auto

text \<open>
  \<open>earliestTime\<close>: the last schedule time, or the creation time when that is nil or zero,
  raised to \<open>cur - StartingDeadlineSeconds\<close> when a deadline is set and later. The
  deadline is an \<open>int64\<close> of seconds, and the product
  \<open>-time.Second * time.Duration(*StartingDeadlineSeconds)\<close> is an \<open>int64\<close> product: it wraps.
\<close>

definition earliestTime :: "time \<Rightarrow> time option \<Rightarrow> int option \<Rightarrow> time \<Rightarrow> time" where
  "earliestTime creationTimestamp lastScheduleTime deadlineSeconds cur =
    (let earliest = (case lastScheduleTime of
                       None \<Rightarrow> creationTimestamp
                     | Some t \<Rightarrow> if IsZero t then creationTimestamp else t)
     in case deadlineSeconds of
          None \<Rightarrow> earliest
        | Some seconds \<Rightarrow>
            (let schedulingDeadline = cur + int64 (int64 (- Second) * int64 seconds)
             in if earliest < schedulingDeadline then schedulingDeadline else earliest))"

text \<open>
  \<open>getNextScheduleTime\<close>. \<open>cron.ParseStandard\<close> is a parameter (it answers an error text
  or the schedule), the object contributes its creation timestamp, and the clock is the
  sequence of readings of \<open>time.Now()\<close>: \<open>cur\<close> is the first, and the branch without a
  schedule returns a second one.
\<close>

definition getNextScheduleTime ::
  "(string \<Rightarrow> string + (time \<Rightarrow> time)) \<Rightarrow> time \<Rightarrow> SchedulerSpec option \<Rightarrow> time option \<Rightarrow>
   (nat \<Rightarrow> time) \<Rightarrow> time \<times> time \<times> sched_error option" where
  "getNextScheduleTime ParseStandard creationTimestamp scheduler lastScheduleTime clock =
    (let cur = clock 0 in
     case scheduler of
       None \<Rightarrow> (clock 1, 0, None)
     | Some spec \<Rightarrow>
        (case Cron spec of
           None \<Rightarrow> (clock 1, 0, None)
         | Some cron \<Rightarrow>
            (case ParseStandard cron of
               Inl err \<Rightarrow> (0, 0, Some (UnparseableSchedule cron err))
             | Inr sched \<Rightarrow>
                (let earliest = earliestTime creationTimestamp lastScheduleTime
                                  (StartingDeadlineSeconds spec) cur
                 in if cur < earliest then (0, sched cur, None)
                    else (case missedLoop sched cur (sched earliest) 0 0 of
                            (lastMissed, starts, aborted) \<Rightarrow>
                              if aborted then (0, 0, Some TooManyMissedStartTimes)
                              else (lastMissed, sched cur, None))))))"

text \<open>Concrete inputs: a schedule that fires every nanosecond, and one parser that knows it.\<close>

definition everyTick :: "time \<Rightarrow> time" where
  "everyTick t = t + 1"

definition parseTick :: "string \<Rightarrow> string + (time \<Rightarrow> time)" where
  "parseTick cron = (if cron = ''tick'' then Inr everyTick else Inl ''unknown schedule'')"

definition tickSpec :: SchedulerSpec where
  "tickSpec = \<lparr>Cron = Some ''tick'', StartingDeadlineSeconds = None\<rparr>"

section \<open>DAG validators (controllers/testplan/graph.go, controllers/workflow/validate.go)\<close>

text \<open>
  The errors of the validators, by kind, with the names their messages carry. The
  wrapping of an error with the name of the plan or of the action is left out.
\<close>

datatype dag_error =
  IncorrectSpec string string
| InvalidActionName string "string list"
| DuplicateAction string
| InvalidDependency string
| DeleteAssertion
| InvalidStateExpr string string
| InvalidMetricsExpr string string
| JobDoesNotExist string string
| CycleDeletion string string
| TemplateRefError string

text \<open>
  What a validator returns: \<open>nil\<close>, an error, or the panic of dereferencing a nil pointer
  (\<open>action.Delete\<close> is a field promoted from the embedded pointer \<open>*EmbedActions\<close>).
\<close>

datatype validation = Valid | Invalid dag_error | NilDereference

definition isSupported :: "Action \<Rightarrow> bool" where
  "isSupported act =
    (case Embed act of
       None \<Rightarrow> False
     | Some e \<Rightarrow>
        if ActionType act = ActionService then Service e \<noteq> None
        else if ActionType act = ActionCluster then Cluster e \<noteq> None
        else if ActionType act = ActionChaos then Chaos e \<noteq> None
        else if ActionType act = ActionCascade then Cascade e \<noteq> None
        else if ActionType act = ActionDelete then Delete e \<noteq> None
        else if ActionType act = ActionCall then Call e \<noteq> None
        else False)"

text \<open>
  \<open>PrepareDependencyGraph\<close>: the loop over the action list with the index built so far.
  \<open>validation.IsQualifiedName\<close> is a parameter; it answers the list of violations.
\<close>

fun PrepareDependencyGraph_loop ::
  "(string \<Rightarrow> string list) \<Rightarrow> (string \<rightharpoonup> Action) \<Rightarrow> Action list \<Rightarrow> dag_error + (string \<rightharpoonup> Action)" where
  "PrepareDependencyGraph_loop IsQualifiedName callIndex [] = Inr callIndex"
| "PrepareDependencyGraph_loop IsQualifiedName callIndex (action # rest) =
    (if \<not> isSupported action then Inl (IncorrectSpec (ActionType action) (ActionName action))
     else if IsQualifiedName (ActionName action) \<noteq> []
       then Inl (InvalidActionName (ActionName action) (IsQualifiedName (ActionName action)))
     else case callIndex (ActionName action) of
       Some _ \<Rightarrow> Inl (DuplicateAction (ActionName action))
     | None \<Rightarrow> PrepareDependencyGraph_loop IsQualifiedName
                 (callIndex(ActionName action \<mapsto> action)) rest)"

definition PrepareDependencyGraph ::
  "(string \<Rightarrow> string list) \<Rightarrow> Action list \<Rightarrow> dag_error + (string \<rightharpoonup> Action)" where
  "PrepareDependencyGraph IsQualifiedName actionList =
     PrepareDependencyGraph_loop IsQualifiedName Map.empty actionList"

text \<open>The closures \<open>successOK\<close> and \<open>runningOK\<close> of the validators: every name is indexed.\<close>

fun indexed_loop :: "(string \<rightharpoonup> Action) \<Rightarrow> string list \<Rightarrow> bool" where
  "indexed_loop callIndex [] = True"
| "indexed_loop callIndex (dep # deps) =
    (case callIndex dep of None \<Rightarrow> False | Some _ \<Rightarrow> indexed_loop callIndex deps)"

definition CheckDependencies :: "Action \<Rightarrow> (string \<rightharpoonup> Action) \<Rightarrow> validation" where
  "CheckDependencies action callIndex =
    (case DependsOn action of
       Some deps \<Rightarrow>
         if \<not> indexed_loop callIndex (Success deps) \<or> \<not> indexed_loop callIndex (Running deps)
         then Invalid (InvalidDependency (ActionName action)) else Valid
     | None \<Rightarrow> Valid)"

text \<open>
  The assertion checks. \<open>expressions.FiredState\<close> and \<open>grafana.ParseAlertExpr\<close> are
  parameters that answer the error, if any.
\<close>

definition CheckAssertions ::
  "(string \<Rightarrow> ClassifierReader \<Rightarrow> string option) \<Rightarrow> (string \<Rightarrow> string option) \<Rightarrow>
   Action \<Rightarrow> ClassifierReader \<Rightarrow> validation" where
  "CheckAssertions FiredStateErr ParseAlertExpr action state =
    (if \<not> ExprIsZero (Assert action) then
       (case Assert action of
          None \<Rightarrow> Valid
        | Some assert \<Rightarrow>
           (case Embed action of
              None \<Rightarrow> NilDereference
            | Some e \<Rightarrow>
               if Delete e \<noteq> None then Invalid DeleteAssertion
               else (case (if HasStateExpr assert then FiredStateErr (StateExpr assert) state else None) of
                       Some err \<Rightarrow> Invalid (InvalidStateExpr (ActionName action) err)
                     | None \<Rightarrow>
                        (case (if HasMetricsExpr assert then ParseAlertExpr (MetricsExpr assert) else None) of
                           Some err \<Rightarrow> Invalid (InvalidMetricsExpr (ActionName action) err)
                         | None \<Rightarrow> Valid))))
     else Valid)"

fun CheckJobRef_loop :: "Action \<Rightarrow> (string \<rightharpoonup> Action) \<Rightarrow> string list \<Rightarrow> validation" where
  "CheckJobRef_loop action callIndex [] = Valid"
| "CheckJobRef_loop action callIndex (job # jobs) =
    (case callIndex job of
       None \<Rightarrow> Invalid (JobDoesNotExist job (ActionName action))
     | Some target \<Rightarrow>
        if ActionType target = ActionDelete then Invalid (CycleDeletion job (ActionName action))
        else CheckJobRef_loop action callIndex jobs)"

definition CheckJobRef :: "Action \<Rightarrow> (string \<rightharpoonup> Action) \<Rightarrow> validation" where
  "CheckJobRef action callIndex =
    (if ActionType action = ActionDelete then
       (case Embed action of
          None \<Rightarrow> NilDereference
        | Some e \<Rightarrow> (case Delete e of
                       None \<Rightarrow> NilDereference
                     | Some d \<Rightarrow> CheckJobRef_loop action callIndex (Jobs d)))
     else Valid)"

text \<open>
  \<open>Validate\<close> of the test plan controller. It ranges over the index, a Go map, whose
  iteration order is not fixed: \<open>order\<close> is the order in which the keys come.
  \<open>CheckTemplateRef\<close> asks the template collaborator and is a parameter.
\<close>

fun Validate_loop ::
  "(string \<Rightarrow> ClassifierReader \<Rightarrow> string option) \<Rightarrow> (string \<Rightarrow> string option) \<Rightarrow>
   (Action \<Rightarrow> string option) \<Rightarrow> (string \<rightharpoonup> Action) \<Rightarrow> ClassifierReader \<Rightarrow> string list \<Rightarrow> validation" where
  "Validate_loop FiredStateErr ParseAlertExpr CheckTemplateRef callIndex clusterView [] = Valid"
| "Validate_loop FiredStateErr ParseAlertExpr CheckTemplateRef callIndex clusterView (actionName # rest) =
    (case callIndex actionName of
       None \<Rightarrow> Validate_loop FiredStateErr ParseAlertExpr CheckTemplateRef callIndex clusterView rest
     | Some action \<Rightarrow>
        (case CheckDependencies action callIndex of
           Valid \<Rightarrow>
            (case CheckAssertions FiredStateErr ParseAlertExpr action clusterView of
               Valid \<Rightarrow>
                (case CheckTemplateRef action of
                   Some err \<Rightarrow> Invalid (TemplateRefError err)
                 | None \<Rightarrow>
                    (case CheckJobRef action callIndex of
                       Valid \<Rightarrow> Validate_loop FiredStateErr ParseAlertExpr CheckTemplateRef
                                  callIndex clusterView rest
                     | failure \<Rightarrow> failure))
             | failure \<Rightarrow> failure)
         | failure \<Rightarrow> failure))"

definition Validate ::
  "(string \<Rightarrow> string list) \<Rightarrow> (string \<Rightarrow> ClassifierReader \<Rightarrow> string option) \<Rightarrow>
   (string \<Rightarrow> string option) \<Rightarrow> (Action \<Rightarrow> string option) \<Rightarrow> string list \<Rightarrow>
   Action list \<Rightarrow> ClassifierReader \<Rightarrow> validation" where
  "Validate IsQualifiedName FiredStateErr ParseAlertExpr CheckTemplateRef order actions clusterView =
    (case PrepareDependencyGraph IsQualifiedName actions of
       Inl err \<Rightarrow> Invalid err
     | Inr callIndex \<Rightarrow>
         Validate_loop FiredStateErr ParseAlertExpr CheckTemplateRef callIndex clusterView order)"

text \<open>
  \<open>ValidateDAG\<close> of the workflow controller. Its first loop checks the names and stores
  every action in the index under its name; its second loop checks dependencies,
  assertions and deletions of every action in list order, with the statements that
  \<open>CheckDependencies\<close>, \<open>CheckAssertions\<close> and \<open>CheckJobRef\<close> consist of.
\<close>

fun ValidateDAG_index ::
  "(string \<Rightarrow> string list) \<Rightarrow> (string \<rightharpoonup> Action) \<Rightarrow> Action list \<Rightarrow> dag_error + (string \<rightharpoonup> Action)" where
  "ValidateDAG_index IsQualifiedName index [] = Inr index"
| "ValidateDAG_index IsQualifiedName index (action # rest) =
    (if IsQualifiedName (ActionName action) \<noteq> []
       then Inl (InvalidActionName (ActionName action) (IsQualifiedName (ActionName action)))
     else ValidateDAG_index IsQualifiedName (index(ActionName action \<mapsto> action)) rest)"

definition ValidateDAG_delete :: "Action \<Rightarrow> (string \<rightharpoonup> Action) \<Rightarrow> validation" where
  "ValidateDAG_delete action index =
    (if ActionType action = ''Delete'' then
       (case Embed action of
          None \<Rightarrow> NilDereference
        | Some e \<Rightarrow> (case Delete e of
                       None \<Rightarrow> NilDereference
                     | Some d \<Rightarrow> CheckJobRef_loop action index (Jobs d)))
     else Valid)"

fun ValidateDAG_check ::
  "(string \<Rightarrow> ClassifierReader \<Rightarrow> string option) \<Rightarrow> (string \<Rightarrow> string option) \<Rightarrow>
   (string \<rightharpoonup> Action) \<Rightarrow> ClassifierReader \<Rightarrow> Action list \<Rightarrow> validation" where
  "ValidateDAG_check FiredStateErr ParseAlertExpr index state [] = Valid"
| "ValidateDAG_check FiredStateErr ParseAlertExpr index state (action # rest) =
    (case CheckDependencies action index of
       Valid \<Rightarrow>
        (case CheckAssertions FiredStateErr ParseAlertExpr action state of
           Valid \<Rightarrow>
            (case ValidateDAG_delete action index of
               Valid \<Rightarrow> ValidateDAG_check FiredStateErr ParseAlertExpr index state rest
             | failure \<Rightarrow> failure)
         | failure \<Rightarrow> failure)
     | failure \<Rightarrow> failure)"

definition ValidateDAG ::
  "(string \<Rightarrow> string list) \<Rightarrow> (string \<Rightarrow> ClassifierReader \<Rightarrow> string option) \<Rightarrow>
   (string \<Rightarrow> string option) \<Rightarrow> Action list \<Rightarrow> ClassifierReader \<Rightarrow> validation" where
  "ValidateDAG IsQualifiedName FiredStateErr ParseAlertExpr list state =
    (case ValidateDAG_index IsQualifiedName Map.empty list of
       Inl err \<Rightarrow> Invalid err
     | Inr index \<Rightarrow> ValidateDAG_check FiredStateErr ParseAlertExpr index state list)"

text \<open>Concrete collaborators: a name check that accepts the listed names, parsers that accept all.\<close>

definition acceptNames :: "string list \<Rightarrow> string \<Rightarrow> string list" where
  "acceptNames ok name = (if name \<in> set ok then [] else [''name is not qualified''])"

definition noStateError :: "string \<Rightarrow> ClassifierReader \<Rightarrow> string option" where
  "noStateError expr state = None"

definition noAlertError :: "string \<Rightarrow> string option" where
  "noAlertError expr = None"

definition noTemplateError :: "Action \<Rightarrow> string option" where
  "noTemplateError action = None"

section \<open>Lifecycle of grouped jobs (controllers/stop, controllers/call, controllers/telemetry)\<close>

text \<open>
  \<open>meta.SetStatusCondition\<close> and \<open>meta.IsStatusConditionTrue\<close> of the Kubernetes API
  machinery: the first condition of the same type is updated in place, a new type is
  appended; a condition is true when the first condition of that type has status True.
\<close>

fun SetStatusCondition :: "Condition list \<Rightarrow> Condition \<Rightarrow> Condition list" where
  "SetStatusCondition [] newCondition = [newCondition]"
| "SetStatusCondition (c # cs) newCondition =
    (if CondType c = CondType newCondition
     then c\<lparr>CondStatus := CondStatus newCondition, CondReason := CondReason newCondition,
            CondMessage := CondMessage newCondition\<rparr> # cs
     else c # SetStatusCondition cs newCondition)"

fun IsStatusConditionTrue :: "Condition list \<Rightarrow> string \<Rightarrow> bool" where
  "IsStatusConditionTrue [] conditionType = False"
| "IsStatusConditionTrue (c # cs) conditionType =
    (if CondType c = conditionType then CondStatus c = ConditionTrue
     else IsStatusConditionTrue cs conditionType)"

text \<open>
  The condition types. Their string values are not among the sources; each is taken to
  be its identifier without the prefix \<open>Condition\<close>.
\<close>

definition ConditionAllJobsScheduled :: string where
  "ConditionAllJobsScheduled = ''AllJobsScheduled''"
definition ConditionAllJobsCompleted :: string where
  "ConditionAllJobsCompleted = ''AllJobsCompleted''"
definition ConditionJobFailed :: string where
  "ConditionJobFailed = ''JobFailed''"
definition ConditionAllJobsAreScheduled :: string where
  "ConditionAllJobsAreScheduled = ''AllJobsAreScheduled''"
definition ConditionJobUnexpectedTermination :: string where
  "ConditionJobUnexpectedTermination = ''JobUnexpectedTermination''"

text \<open>
  The custom resources \<open>Stop\<close> and \<open>Call\<close> as far as \<open>calculateLifecycle\<close> reads and writes
  them: both have \<open>Spec.Services\<close>, \<open>Spec.Until\<close>, \<open>Spec.Suspend\<close>, a status with the
  embedded \<open>Lifecycle\<close> and \<open>ScheduledJobs\<close>; \<open>Call\<close> also has \<open>Spec.Tolerate\<close>.
\<close>

record TolerateSpec =
  FailedJobs :: int

record GroupSpec =
  Services :: "string list"
  Until :: "ConditionalExpr option"
  Suspend :: "bool option"
  Tolerate :: "TolerateSpec option"

record GroupStatus =
  Lifecycle :: Lifecycle
  ScheduledJobs :: int

record GroupCR =
  ObjName :: string
  Spec :: GroupSpec
  Status :: GroupStatus

text \<open>Formatting: \<open>%d\<close> of an integer and \<open>%s\<close> of a list of names (\<open>[a b c]\<close>).\<close>

fun showNat :: "nat \<Rightarrow> string" where
  "showNat n = (if n < 10 then [''0123456789'' ! n]
                else showNat (n div 10) @ [''0123456789'' ! (n mod 10)])"

declare showNat.simps [simp del]

definition showInt :: "int \<Rightarrow> string" where
  "showInt i = (if i < 0 then ''-'' @ showNat (nat (- i)) else showNat (nat i))"

fun joinNames :: "string list \<Rightarrow> string" where
  "joinNames [] = []"
| "joinNames [n] = n"
| "joinNames (n # m # ns) = n @ '' '' @ joinNames (m # ns)"

definition showNames :: "string list \<Rightarrow> string" where
  "showNames ns = ''['' @ joinNames ns @ '']''"

definition newLifecycle :: "Phase \<Rightarrow> string \<Rightarrow> string \<Rightarrow> Lifecycle" where
  "newLifecycle phase reason message =
     zeroLifecycle\<lparr>Phase := phase, Reason := reason, Message := message\<rparr>"

definition trueCondition :: "string \<Rightarrow> string \<Rightarrow> string \<Rightarrow> Condition" where
  "trueCondition conditionType reason message =
     \<lparr>CondType = conditionType, CondStatus = ConditionTrue, CondReason = reason,
      CondMessage = message\<rparr>"

definition setCondition :: "GroupStatus \<Rightarrow> Condition \<Rightarrow> GroupStatus" where
  "setCondition status c =
     status\<lparr>Lifecycle := (Lifecycle status)\<lparr>Conditions :=
        SetStatusCondition (Conditions (Lifecycle status)) c\<rparr>\<rparr>"

definition suspend :: "GroupCR \<Rightarrow> GroupCR" where
  "suspend cr = cr\<lparr>Spec := (Spec cr)\<lparr>Suspend := Some True\<rparr>\<rparr>"

text \<open>The rows of a decision table, and the loop that takes the first row that holds.\<close>

record test =
  expression :: bool
  lifecycle :: Lifecycle
  condition :: Condition

fun firstMatch :: "test list \<Rightarrow> test option" where
  "firstMatch [] = None"
| "firstMatch (testcase # rest) = (if expression testcase then Some testcase else firstMatch rest)"

datatype panic = UnhandledLifecycleConditions

definition maxInstancesMessageStop :: "nat \<Rightarrow> string \<Rightarrow> string" where
  "maxInstancesMessageStop n name =
     ''All  ['' @ showInt (int n) @ ''] services are stopped for job ['' @ name @
     ''] before Until conditions are met.'' @ [CHR 0x0A, CHR 0x09, CHR 0x09, CHR 0x09] @
     ''Abort the experiment as it too flaky to accept. ''"

text \<open>
  \<open>calculateLifecycle\<close> of the stop controller. \<open>expressions.FiredAlert\<close> and
  \<open>expressions.FiredState\<close> are parameters. The function returns the new status; it also
  writes \<open>cr.Spec.Suspend\<close>, so the resource is returned with it. \<open>Inl\<close> is the panic.
\<close>

definition stop_autotests :: "GroupCR \<Rightarrow> ClassifierReader \<Rightarrow> test list" where
  "stop_autotests cr gs =
    (let status = Status cr; queuedJobs = int (length (Services (Spec cr))) in
     [\<lparr>expression = (NumSuccessfulJobs gs = queuedJobs),
       lifecycle = newLifecycle PhaseSuccess ''AllJobsCompleted''
                     (''successful jobs: '' @ showNames (SuccessfulList gs)),
       condition = trueCondition ConditionAllJobsCompleted ''AllJobsCompleted''
                     (''successful jobs: '' @ showNames (SuccessfulList gs))\<rparr>,
      \<lparr>expression = (Phase (Lifecycle status) = PhaseRunning \<and> NumFailedJobs gs > 0),
       lifecycle = Lifecycle status,
       condition = zeroCondition\<rparr>,
      \<lparr>expression = (NumRunningJobs gs + NumSuccessfulJobs gs = queuedJobs),
       lifecycle = newLifecycle PhaseRunning ''AllJobsRunning''
                     (''running jobs: '' @ showNames (RunningList gs)),
       condition = trueCondition ConditionAllJobsScheduled ''AllJobsRunning''
                     (''running jobs: '' @ showNames (RunningList gs))\<rparr>,
      \<lparr>expression = (Phase (Lifecycle status) = PhasePending),
       lifecycle = newLifecycle PhasePending ''JobIsPending''
                     ''at least one jobs has not yet created'',
       condition = zeroCondition\<rparr>])"

definition stop_calculateLifecycle ::
  "(GroupCR \<Rightarrow> string \<times> bool) \<Rightarrow> (string \<Rightarrow> ClassifierReader \<Rightarrow> string \<times> bool \<times> string option) \<Rightarrow>
   GroupCR \<Rightarrow> ClassifierReader \<Rightarrow> panic + (GroupStatus \<times> GroupCR)" where
  "stop_calculateLifecycle FiredAlert FiredState cr gs =
    (let status = Status cr in
     if Phase (Lifecycle status) = PhaseUninitialized \<or>
        Phase (Lifecycle status) = PhaseSuccess \<or>
        Phase (Lifecycle status) = PhaseFailed
     then Inr (status, cr)
     else case Until (Spec cr) of
       Some until \<Rightarrow>
        (if HasMetricsExpr until \<and> snd (FiredAlert cr)
         then Inr (setCondition
                     (status\<lparr>Lifecycle := newLifecycle PhaseRunning ''MetricsEventFired''
                                             (fst (FiredAlert cr))\<rparr>)
                     (trueCondition ConditionAllJobsScheduled ''MetricsEventFired''
                        (fst (FiredAlert cr))),
                   suspend cr)
         else case (if HasStateExpr until then Some (FiredState (StateExpr until) gs) else None) of
           Some (info, fired, Some err) \<Rightarrow>
             Inr (setCondition
                    (status\<lparr>Lifecycle := newLifecycle PhaseFailed ''StateQueryError'' err\<rparr>)
                    (trueCondition ConditionJobFailed ''StateQueryError'' err),
                  cr)
         | Some (info, True, None) \<Rightarrow>
             Inr (setCondition
                    (status\<lparr>Lifecycle := newLifecycle PhaseRunning ''StateEventFired'' info\<rparr>)
                    (trueCondition ConditionAllJobsScheduled ''StateEventFired'' info),
                  suspend cr)
         | _ \<Rightarrow>
            (if length (Services (Spec cr)) > 0 \<and>
                ScheduledJobs (Status cr) > int (length (Services (Spec cr)))
             then (let msg = maxInstancesMessageStop (length (Services (Spec cr))) (ObjName cr) in
                   Inr (setCondition
                          (status\<lparr>Lifecycle := newLifecycle PhaseFailed ''MaxInstancesReached'' msg\<rparr>)
                          (trueCondition ConditionJobFailed ''MaxInstancesReached'' msg),
                        cr))
             else Inr (status\<lparr>Lifecycle := newLifecycle PhasePending ''SpawnUntilEvent''
                                               ''Assertion is not yet satisfied.''\<rparr>,
                       cr)))
     | None \<Rightarrow>
        (case firstMatch (stop_autotests cr gs) of
           Some testcase \<Rightarrow>
             (let status1 = status\<lparr>Lifecycle := lifecycle testcase\<rparr> in
              if condition testcase \<noteq> zeroCondition
              then Inr (setCondition status1 (condition testcase), cr)
              else Inr (status1, cr))
         | None \<Rightarrow> Inl UnhandledLifecycleConditions))"

text \<open>
  \<open>calculateLifecycle\<close> of the telemetry controller, on the lifecycle of the resource.
  It expects the two telemetry services and assigns only the lifecycle of the row that
  holds, never its condition.
\<close>

definition telemetryServices :: "string list" where
  "telemetryServices = [''prometheus'', ''grafana'']"

definition telemetry_autotests :: "Lifecycle \<Rightarrow> ClassifierReader \<Rightarrow> test list" where
  "telemetry_autotests cycle gs =
    (let expectedJobs = int (length telemetryServices) in
     [\<lparr>expression = (NumFailedJobs gs > 0),
       lifecycle = newLifecycle PhaseFailed ''JobHasFailed''
                     (''failed jobs: '' @ showNames (FailedList gs)),
       condition = trueCondition ConditionJobFailed ''JobHasFailed''
                     (''failed jobs: '' @ showNames (FailedList gs))\<rparr>,
      \<lparr>expression = (NumRunningJobs gs = expectedJobs),
       lifecycle = newLifecycle PhaseRunning ''JobIsRunning''
                     (''running jobs: '' @ showNames (RunningList gs)),
       condition = trueCondition ConditionAllJobsScheduled ''AllJobsRunning''
                     (''active jobs: '' @ showNames (PendingList gs))\<rparr>,
      \<lparr>expression = (Phase cycle = PhasePending),
       lifecycle = newLifecycle PhasePending ''JobIsPending''
                     ''at least one jobs has not yet created'',
       condition = zeroCondition\<rparr>])"

definition telemetry_calculateLifecycle :: "Lifecycle \<Rightarrow> ClassifierReader \<Rightarrow> panic + Lifecycle" where
  "telemetry_calculateLifecycle cycle gs =
    (if Phase cycle = PhaseUninitialized \<or> Phase cycle = PhaseSuccess \<or> Phase cycle = PhaseFailed
     then Inr cycle
     else case firstMatch (telemetry_autotests cycle gs) of
            Some testcase \<Rightarrow> Inr (lifecycle testcase)
          | None \<Rightarrow> Inl UnhandledLifecycleConditions)"

definition maxInstancesMessageCall :: "string \<Rightarrow> nat \<Rightarrow> string" where
  "maxInstancesMessageCall name n =
     ''Resource ['' @ name @ ''] has reached Max instances ['' @ showInt (int n) @
     ''] before Until conditions are met.'' @ [CHR 0x0A, CHR 0x09, CHR 0x09, CHR 0x09] @
     ''Abort the experiment as it too flaky to accept. You can retry without defining instances.''"

text \<open>
  \<open>calculateLifecycle\<close> of the call controller. It updates the resource in place and
  answers whether it did. The evaluation of the \<open>Until\<close> expression (\<open>eval.IsTrue\<close>, with
  the text it leaves in \<open>eval.Info\<close>) is a parameter, and so is \<open>lifecycle.GroupedJobs\<close>,
  which is not among the sources: it is given the number of jobs, the view, the lifecycle
  and the tolerance, and answers the flag and the new lifecycle.
\<close>

definition call_calculateLifecycle ::
  "(ConditionalExpr option \<Rightarrow> ClassifierReader \<Rightarrow> GroupCR \<Rightarrow> bool \<times> string) \<Rightarrow>
   (int \<Rightarrow> ClassifierReader \<Rightarrow> Lifecycle \<Rightarrow> TolerateSpec option \<Rightarrow> bool \<times> Lifecycle) \<Rightarrow>
   ClassifierReader \<Rightarrow> GroupCR \<Rightarrow> bool \<times> GroupCR" where
  "call_calculateLifecycle IsTrue GroupedJobs view cr =
    (let grouped = (\<lambda>totalJobs.
           case GroupedJobs totalJobs view (Lifecycle (Status cr)) (Tolerate (Spec cr)) of
             (changed, cycle) \<Rightarrow> (changed, cr\<lparr>Status := (Status cr)\<lparr>Lifecycle := cycle\<rparr>\<rparr>)) in
     if Phase (Lifecycle (Status cr)) = PhaseUninitialized \<or>
        Phase (Lifecycle (Status cr)) = PhaseSuccess \<or>
        Phase (Lifecycle (Status cr)) = PhaseFailed
     then (False, cr)
     else if \<not> ExprIsZero (Until (Spec cr)) then
       (if IsStatusConditionTrue (Conditions (Lifecycle (Status cr))) ConditionAllJobsAreScheduled
        then grouped (ScheduledJobs (Status cr) + 1)
        else case IsTrue (Until (Spec cr)) view cr of
          (True, info) \<Rightarrow>
            (True, suspend (cr\<lparr>Status := setCondition
                ((Status cr)\<lparr>Lifecycle := (Lifecycle (Status cr))\<lparr>Phase := PhaseRunning,
                    Reason := ''UntilCondition'', Message := info\<rparr>\<rparr>)
                (trueCondition ConditionAllJobsAreScheduled ''UntilCondition'' info)\<rparr>))
        | (False, info) \<Rightarrow>
            (let maxJobs = int (length (Services (Spec cr))) in
             if maxJobs > 0 \<and> ScheduledJobs (Status cr) > maxJobs
             then (let msg = maxInstancesMessageCall (ObjName cr) (length (Services (Spec cr))) in
                   (True, cr\<lparr>Status := setCondition
                      ((Status cr)\<lparr>Lifecycle := (Lifecycle (Status cr))\<lparr>Phase := PhaseFailed,
                          Reason := ''MaxInstancesReached'', Message := msg\<rparr>\<rparr>)
                      (trueCondition ConditionJobUnexpectedTermination ''MaxInstancesReached'' msg)\<rparr>))
             else (True, cr\<lparr>Status := (Status cr)\<lparr>Lifecycle := (Lifecycle (Status cr))\<lparr>
                      Phase := PhasePending, Reason := ''SpawnUntilEvent'',
                      Message := ''Assertion is not yet satisfied.''\<rparr>\<rparr>\<rparr>)))
     else grouped (int (length (Services (Spec cr)))))"

text \<open>Concrete inputs for the lifecycle functions.\<close>

definition noAlert :: "GroupCR \<Rightarrow> string \<times> bool" where
  "noAlert cr = ([], False)"

definition stateNotFired :: "string \<Rightarrow> ClassifierReader \<Rightarrow> string \<times> bool \<times> string option" where
  "stateNotFired expr gs = ([], False, None)"

definition untilNotTrue :: "ConditionalExpr option \<Rightarrow> ClassifierReader \<Rightarrow> GroupCR \<Rightarrow> bool \<times> string" where
  "untilNotTrue expr view cr = (False, [])"

definition keepLifecycle :: "int \<Rightarrow> ClassifierReader \<Rightarrow> Lifecycle \<Rightarrow> TolerateSpec option \<Rightarrow> bool \<times> Lifecycle" where
  "keepLifecycle totalJobs view cycle tolerate = (False, cycle)"

definition groupCR :: "Phase \<Rightarrow> string list \<Rightarrow> ConditionalExpr option \<Rightarrow> int \<Rightarrow> GroupCR" where
  "groupCR phase services until scheduled =
    \<lparr>ObjName = ''job'',
     Spec = \<lparr>Services = services, Until = until, Suspend = None, Tolerate = None\<rparr>,
     Status = \<lparr>Lifecycle = zeroLifecycle\<lparr>Phase := phase\<rparr>, ScheduledJobs = scheduled\<rparr>\<rparr>"

definition viewOf :: "int \<Rightarrow> int \<Rightarrow> int \<Rightarrow> int \<Rightarrow> ClassifierReader" where
  "viewOf pending running successful failed =
     emptyView\<lparr>NumPendingJobs := pending, NumRunningJobs := running,
       NumSuccessfulJobs := successful, NumFailedJobs := failed\<rparr>"

definition untilCR :: "int \<Rightarrow> GroupCR" where
  "untilCR scheduled =
     groupCR PhasePending [''a'', ''b'', ''c''] (Some \<lparr>StateExpr = ''never'', MetricsExpr = []\<rparr>) scheduled"

section \<open>Decoration of a service pod (package service, \<open>decoratePod\<close>)\<close>

text \<open>
  The service resource as far as \<open>decoratePod\<close> reads and writes it. A parsed
  \<open>resource.Quantity\<close> is kept as the text it was parsed from. The container list of a
  service spec is the field \<open>SpecContainers\<close> (\<open>Containers\<close> names the accessor above).
\<close>

type_synonym quantity = string

record Volume =
  VolumeName :: string

record Container =
  ContainerImage :: string
  Limits :: "string \<rightharpoonup> quantity"
  Requests :: "string \<rightharpoonup> quantity"

record ResourcesSpec =
  CPU :: string
  Memory :: string

record SetFieldSpec =
  Field :: string
  Value :: string

record Decorators =
  Labels :: "(string \<rightharpoonup> string) option"
  Annotations :: "(string \<rightharpoonup> string) option"
  SetFields :: "SetFieldSpec list"
  Resources :: "ResourcesSpec option"
  Telemetry :: "string list"

record ServiceSpec =
  Decorators :: Decorators
  SpecContainers :: "Container list"
  Volumes :: "Volume list"
  ShareProcessNamespace :: "bool option"

record ServiceCR =
  ObjLabels :: "string \<rightharpoonup> string"
  ObjAnnotations :: "string \<rightharpoonup> string"
  ServiceSpec :: ServiceSpec

datatype pod_error =
  CannotSetField SetFieldSpec string
| ResourcesNotApplicable
| ResourceError "string list"
| CannotGetMonitor string

text \<open>
  The loop over \<open>Decorators.SetFields\<close>; \<open>SetField\<close> works by reflection and is a
  parameter that answers the error, if any, and the resource as it leaves it.
\<close>

fun setFields ::
  "(ServiceCR \<Rightarrow> SetFieldSpec \<Rightarrow> string option \<times> ServiceCR) \<Rightarrow> ServiceCR \<Rightarrow> SetFieldSpec list \<Rightarrow>
   pod_error option \<times> ServiceCR" where
  "setFields SetField cr [] = (None, cr)"
| "setFields SetField cr (val # rest) =
    (case SetField cr val of
       (Some err, cr') \<Rightarrow> (Some (CannotSetField val err), cr')
     | (None, cr') \<Rightarrow> setFields SetField cr' rest)"

text \<open>
  The resources of the single container. \<open>resource.ParseQuantity\<close> is a parameter; the
  errors of both quantities are collected before the function gives up.
\<close>

definition setResources ::
  "(string \<Rightarrow> string + quantity) \<Rightarrow> ServiceCR \<Rightarrow> ResourcesSpec \<Rightarrow> pod_error option \<times> ServiceCR" where
  "setResources ParseQuantity cr req =
    (case SpecContainers (ServiceSpec cr) of
       [container] \<Rightarrow>
        (let cpu = (if length (CPU req) > 0 then Some (ParseQuantity (CPU req)) else None);
             memory = (if length (Memory req) > 0 then Some (ParseQuantity (Memory req)) else None);
             resourceError =
               (case cpu of Some (Inl err) \<Rightarrow> [''CPU resource error: '' @ err] | _ \<Rightarrow> []) @
               (case memory of Some (Inl err) \<Rightarrow> [''Memory resource error: '' @ err] | _ \<Rightarrow> []);
             resources =
               (case memory of
                  Some (Inr q) \<Rightarrow> (case cpu of Some (Inr c) \<Rightarrow> [''cpu'' \<mapsto> c, ''memory'' \<mapsto> q]
                                  | _ \<Rightarrow> [''memory'' \<mapsto> q])
                | _ \<Rightarrow> (case cpu of Some (Inr c) \<Rightarrow> [''cpu'' \<mapsto> c] | _ \<Rightarrow> Map.empty))
         in if resourceError \<noteq> [] then (Some (ResourceError resourceError), cr)
            else (None, cr\<lparr>ServiceSpec := (ServiceSpec cr)\<lparr>SpecContainers :=
                    [container\<lparr>Limits := resources, Requests := resources\<rparr>]\<rparr>\<rparr>))
     | _ \<Rightarrow> (Some ResourcesNotApplicable, cr))"

text \<open>
  The import of the telemetry agents. \<open>serviceutils.GetServiceSpec\<close> resolves a monitor
  template and is a parameter. A monitor that has not exactly one container makes the
  function return \<open>errors.Wrapf(err, ...)\<close> with \<open>err\<close> nil, which is nil: it returns
  without an error. The volumes of the monitor are appended by two consecutive statements.
\<close>

fun importAgents ::
  "(ServiceCR \<Rightarrow> string \<Rightarrow> string + ServiceSpec) \<Rightarrow> ServiceCR \<Rightarrow> string list \<Rightarrow>
   pod_error option \<times> ServiceCR" where
  "importAgents GetServiceSpec cr [] = (None, cr)"
| "importAgents GetServiceSpec cr (monRef # rest) =
    (case GetServiceSpec cr monRef of
       Inl err \<Rightarrow> (Some (CannotGetMonitor err), cr)
     | Inr monSpec \<Rightarrow>
        (case SpecContainers monSpec of
           [sidecar] \<Rightarrow>
            (let cr1 = cr\<lparr>ServiceSpec := (ServiceSpec cr)\<lparr>SpecContainers :=
                         SpecContainers (ServiceSpec cr) @ [sidecar]\<rparr>\<rparr>;
                 cr2 = cr1\<lparr>ServiceSpec := (ServiceSpec cr1)\<lparr>Volumes :=
                         Volumes (ServiceSpec cr1) @ Volumes monSpec\<rparr>\<rparr>;
                 cr3 = cr2\<lparr>ServiceSpec := (ServiceSpec cr2)\<lparr>Volumes :=
                         Volumes (ServiceSpec cr2) @ Volumes monSpec\<rparr>\<rparr>
             in importAgents GetServiceSpec cr3 rest)
         | _ \<Rightarrow> (None, cr)))"

text \<open>\<open>labels.Merge\<close> is the union of two label maps in which the second wins.\<close>

definition decoratePod ::
  "(ServiceCR \<Rightarrow> SetFieldSpec \<Rightarrow> string option \<times> ServiceCR) \<Rightarrow> (string \<Rightarrow> string + quantity) \<Rightarrow>
   (ServiceCR \<Rightarrow> string \<Rightarrow> string + ServiceSpec) \<Rightarrow> ServiceCR \<Rightarrow> pod_error option \<times> ServiceCR" where
  "decoratePod SetField ParseQuantity GetServiceSpec cr0 =
    (let cr1 = (case Labels (Decorators (ServiceSpec cr0)) of
                  Some req \<Rightarrow> cr0\<lparr>ObjLabels := ObjLabels cr0 ++ req\<rparr> | None \<Rightarrow> cr0);
         cr2 = (case Annotations (Decorators (ServiceSpec cr1)) of
                  Some req \<Rightarrow> cr1\<lparr>ObjAnnotations := ObjAnnotations cr1 ++ req\<rparr> | None \<Rightarrow> cr1)
     in case setFields SetField cr2 (SetFields (Decorators (ServiceSpec cr2))) of
          (Some err, cr3) \<Rightarrow> (Some err, cr3)
        | (None, cr3) \<Rightarrow>
           (case (case Resources (Decorators (ServiceSpec cr3)) of
                    Some req \<Rightarrow> setResources ParseQuantity cr3 req | None \<Rightarrow> (None, cr3)) of
              (Some err, cr4) \<Rightarrow> (Some err, cr4)
            | (None, cr4) \<Rightarrow>
               (let cr5 = (if length (Telemetry (Decorators (ServiceSpec cr4))) > 0
                           then cr4\<lparr>ServiceSpec := (ServiceSpec cr4)\<lparr>ShareProcessNamespace := Some True\<rparr>\<rparr>
                           else cr4)
                in importAgents GetServiceSpec cr5 (Telemetry (Decorators (ServiceSpec cr5))))))"

text \<open>
  Concrete inputs: a service with one container that imports the monitor \<open>mon\<close>, whose
  template has one sidecar container and the volume \<open>data\<close>.
\<close>

definition plainContainer :: "string \<Rightarrow> Container" where
  "plainContainer img = \<lparr>ContainerImage = img, Limits = Map.empty, Requests = Map.empty\<rparr>"

definition noDecorators :: Decorators where
  "noDecorators = \<lparr>Labels = None, Annotations = None, SetFields = [], Resources = None, Telemetry = []\<rparr>"

definition monitorSpec :: ServiceSpec where
  "monitorSpec = \<lparr>Decorators = noDecorators, SpecContainers = [plainContainer ''agent''],
     Volumes = [\<lparr>VolumeName = ''data''\<rparr>], ShareProcessNamespace = None\<rparr>"

definition monitoredService :: ServiceCR where
  "monitoredService = \<lparr>ObjLabels = Map.empty, ObjAnnotations = Map.empty,
     ServiceSpec = \<lparr>Decorators = noDecorators\<lparr>Telemetry := [''mon'']\<rparr>,
       SpecContainers = [plainContainer ''app''], Volumes = [], ShareProcessNamespace = None\<rparr>\<rparr>"

definition lookupMonitor :: "ServiceCR \<Rightarrow> string \<Rightarrow> string + ServiceSpec" where
  "lookupMonitor cr monRef = (if monRef = ''mon'' then Inr monitorSpec else Inl ''template not found'')"

definition setFieldNever :: "ServiceCR \<Rightarrow> SetFieldSpec \<Rightarrow> string option \<times> ServiceCR" where
  "setFieldNever cr val = (Some ''no such field'', cr)"

definition parseAny :: "string \<Rightarrow> string + quantity" where
  "parseAny text = Inr text"

section \<open>Properties of the container accessor\<close>

lemma HasPrefix_single: "HasPrefix s [c] = (\<exists>cs. s = c # cs)"
  by (cases s) auto

lemma Contains_single: "Contains s [c] = (c \<in> set s)"
  by (induction s) (auto simp: HasPrefix_single)

lemma Containers_step_names:
  assumes "\<forall>l \<in> set acc. CHR ''-'' \<notin> set (Name l)"
  shows "\<forall>l \<in> set (Containers_step acc c). CHR ''-'' \<notin> set (Name l)"
  using assms
  by (auto simp: Containers_step_def Contains_single zeroLifecycle_def split: option.splits)

lemma Containers_loop_names:
  "\<forall>l \<in> set acc. CHR ''-'' \<notin> set (Name l) \<Longrightarrow>
   \<forall>l \<in> set (foldl Containers_step acc cs). CHR ''-'' \<notin> set (Name l)"
proof (induction cs arbitrary: acc)
  case Nil
  then show ?case by simp
next
  case (Cons c cs)
  from Cons.prems have "\<forall>l \<in> set (Containers_step acc c). CHR ''-'' \<notin> set (Name l)"
    by (rule Containers_step_names)
  then show ?case using Cons.IH by simp
qed

lemma Containers_step_sidecar:
  "CHR ''-'' \<in> set (ContainerName c) \<Longrightarrow> Containers_step acc c = acc"
  by (simp add: Containers_step_def Contains_single)

lemma Containers_loop_filter:
  "foldl Containers_step acc (filter (\<lambda>c. CHR ''-'' \<notin> set (ContainerName c)) cs) =
   foldl Containers_step acc cs"
  by (induction cs arbitrary: acc) (simp_all add: Containers_step_sidecar)

text \<open>
  Claim C10. The adapter \<open>Containers\<close> returns no lifecycle entry named after a container
  whose name contains the character \<open>-\<close>, and such containers never contribute: the result
  is the one obtained from the pod with these container statuses removed, whatever their
  waiting, running or terminated state is.
\<close>

theorem Containers_skips_sidecars:
  "(\<forall>l \<in> set (Containers pod). CHR ''-'' \<notin> set (Name l)) \<and>
   Containers pod =
     Containers (pod\<lparr>ContainerStatuses :=
       filter (\<lambda>c. CHR ''-'' \<notin> set (ContainerName c)) (ContainerStatuses pod)\<rparr>)"
proof
  show "\<forall>l \<in> set (Containers pod). CHR ''-'' \<notin> set (Name l)"
    unfolding Containers_def by (rule Containers_loop_names) simp
next
  show "Containers pod =
     Containers (pod\<lparr>ContainerStatuses :=
       filter (\<lambda>c. CHR ''-'' \<notin> set (ContainerName c)) (ContainerStatuses pod)\<rparr>)"
    by (simp add: Containers_def Containers_loop_filter)
qed

theorem Containers_skips_sidecars_witness:
  "Containers \<lparr>ContainerStatuses =
      [\<lparr>ContainerName = ''app'', State = \<lparr>StateWaiting = None,
          StateRunning = Some \<lparr>RunningStartedAt = 7\<rparr>, StateTerminated = None\<rparr>\<rparr>,
       \<lparr>ContainerName = ''side-car'', State = \<lparr>StateWaiting = None, StateRunning = None,
          StateTerminated = Some \<lparr>ExitCode = 1, TerminatedReason = ''Error'',
            TerminatedStartedAt = 7, FinishedAt = 9\<rparr>\<rparr>\<rparr>]\<rparr> =
   [zeroLifecycle\<lparr>Kind := ''Container'', Name := ''app'', Phase := PhaseRunning,
      Reason := ''container is started'', StartTime := Some 7\<rparr>]"
  using Containers_skips_sidecars [of "\<lparr>ContainerStatuses =
      [\<lparr>ContainerName = ''app'', State = \<lparr>StateWaiting = None,
          StateRunning = Some \<lparr>RunningStartedAt = 7\<rparr>, StateTerminated = None\<rparr>\<rparr>,
       \<lparr>ContainerName = ''side-car'', State = \<lparr>StateWaiting = None, StateRunning = None,
          StateTerminated = Some \<lparr>ExitCode = 1, TerminatedReason = ''Error'',
            TerminatedStartedAt = 7, FinishedAt = 9\<rparr>\<rparr>\<rparr>]\<rparr>"]
  by (simp add: Containers_def Containers_step_def zeroLifecycle_def)


section \<open>Properties of the logical scheduler\<close>

lemma successOK_loop_all: "successOK_loop gs ds = list_all (IsSuccessful gs) ds"
  by (induction ds) auto

lemma runningOK_loop_all: "runningOK_loop gs ds = list_all (IsRunning gs) ds"
  by (induction ds) auto

lemma timeOK_fixed:
  "fst (timeOK tb (fixedClock now) deps vars) =
     (case After deps of None \<Rightarrow> True | Some dur \<Rightarrow> tb + dur < now)"
  "schedule (snd (timeOK tb (fixedClock now) deps vars)) = schedule vars"
  by (simp_all add: timeOK_def fixedClock_def Let_def split: option.splits)

lemma step_fixed_schedule:
  "schedule (GetNextLogicalJob_step tb gs ex (fixedClock now) vars a) =
   schedule vars @ (if ready tb gs ex now a then [a] else [])"
proof (cases "ex (ActionName a)")
  case (Some e)
  then show ?thesis by (simp add: GetNextLogicalJob_step_def ready_def)
next
  case None
  note ex = None
  show ?thesis
  proof (cases "DependsOn a")
    case None
    with ex show ?thesis by (simp add: GetNextLogicalJob_step_def ready_def)
  next
    case (Some deps)
    obtain ok vars' where t: "timeOK tb (fixedClock now) deps vars = (ok, vars')"
      by (cases "timeOK tb (fixedClock now) deps vars")
    from timeOK_fixed [of tb now deps vars] t
    have ok: "ok = (case After deps of None \<Rightarrow> True | Some dur \<Rightarrow> tb + dur < now)"
      and sch: "schedule vars' = schedule vars" by simp_all
    from ex Some t sch show ?thesis
      by (simp add: GetNextLogicalJob_step_def ready_def successOK_def runningOK_def
          successOK_loop_all runningOK_loop_all ok)
  qed
qed

lemma loop_fixed_schedule:
  "schedule (foldl (GetNextLogicalJob_step tb gs ex (fixedClock now)) vars all) =
   schedule vars @ filter (ready tb gs ex now) all"
  by (induction all arbitrary: vars) (simp_all add: step_fixed_schedule)

text \<open>
  While the clock stands at \<open>now\<close> for the whole invocation, the ready list is the input
  list restricted to the actions that are ready at \<open>now\<close>.
\<close>

lemma GetNextLogicalJob_standing_clock:
  "fst (GetNextLogicalJob timebase all gs executed (fixedClock now)) =
   filter (ready timebase gs executed now) all"
  by (simp add: GetNextLogicalJob_def Let_def loop_fixed_schedule)

lemma ready_plain: "ready tb gs ex now (plainAction n) = (ex n = None)"
  by (simp add: ready_def plainAction_def)

lemma ready_waiting: "ready tb gs ex now waitingAction = (ex ''b'' = None \<and> tb + 5 < now)"
  by (simp add: ready_def plainAction_def waitingAction_def)

lemma timeOK_reading:
  "fst (timeOK tb clock deps vars) =
     (case After deps of None \<Rightarrow> True | Some dur \<Rightarrow> tb + dur < clock (reads vars))"
  "schedule (snd (timeOK tb clock deps vars)) = schedule vars"
  "reads (snd (timeOK tb clock deps vars)) =
     (if After deps = None then reads vars else Suc (reads vars))"
  by (simp_all add: timeOK_def Let_def split: option.splits)

lemma step_reading:
  "schedule (GetNextLogicalJob_step tb gs ex clock vars a) =
     schedule vars @ (if ready tb gs ex (clock (reads vars)) a then [a] else [])"
  "reads (GetNextLogicalJob_step tb gs ex clock vars a) =
     (if consultsClock gs ex a then Suc (reads vars) else reads vars)"
proof -
  show "schedule (GetNextLogicalJob_step tb gs ex clock vars a) =
     schedule vars @ (if ready tb gs ex (clock (reads vars)) a then [a] else [])"
  proof (cases "ex (ActionName a)")
    case (Some e)
    then show ?thesis by (simp add: GetNextLogicalJob_step_def ready_def)
  next
    case None
    note ex = None
    show ?thesis
    proof (cases "DependsOn a")
      case None
      with ex show ?thesis by (simp add: GetNextLogicalJob_step_def ready_def)
    next
      case (Some deps)
      obtain ok vars' where t: "timeOK tb clock deps vars = (ok, vars')"
        by (cases "timeOK tb clock deps vars")
      from timeOK_reading(1,2) [of tb clock deps vars] t
      have ok: "ok = (case After deps of None \<Rightarrow> True | Some dur \<Rightarrow> tb + dur < clock (reads vars))"
        and sch: "schedule vars' = schedule vars" by simp_all
      from ex Some t sch show ?thesis
        by (simp add: GetNextLogicalJob_step_def ready_def successOK_def runningOK_def
            successOK_loop_all runningOK_loop_all ok)
    qed
  qed
next
  show "reads (GetNextLogicalJob_step tb gs ex clock vars a) =
     (if consultsClock gs ex a then Suc (reads vars) else reads vars)"
  proof (cases "ex (ActionName a)")
    case (Some e)
    then show ?thesis by (simp add: GetNextLogicalJob_step_def consultsClock_def)
  next
    case None
    note ex = None
    show ?thesis
    proof (cases "DependsOn a")
      case None
      with ex show ?thesis by (simp add: GetNextLogicalJob_step_def consultsClock_def)
    next
      case (Some deps)
      obtain ok vars' where t: "timeOK tb clock deps vars = (ok, vars')"
        by (cases "timeOK tb clock deps vars")
      from timeOK_reading(3) [of tb clock deps vars] t
      have rd: "reads vars' = (if After deps = None then reads vars else Suc (reads vars))"
        by simp
      from ex Some t rd show ?thesis
        by (simp add: GetNextLogicalJob_step_def consultsClock_def successOK_def runningOK_def
            successOK_loop_all runningOK_loop_all)
    qed
  qed
qed

lemma loop_reading:
  "schedule (foldl (GetNextLogicalJob_step tb gs ex clock) vars all) =
   schedule vars @
   map fst (filter (\<lambda>(a, k). ready tb gs ex (clock k) a)
             (zip all (readingIndex gs ex (reads vars) all)))"
proof (induction all arbitrary: vars)
  case Nil
  show ?case by simp
next
  case (Cons a all)
  show ?case
    by (simp add: Cons.IH step_reading)
qed

text \<open>
  Claim C1, amended. For every action list, executed set, Classifier view and clock, the
  ready list returned by \<open>GetNextLogicalJob\<close> consists, in declaration order, of exactly
  the actions of the input list that are not in the executed set, whose \<open>depends.success\<close>
  names are all classified successful, whose \<open>depends.running\<close> names are all classified
  running, and whose \<open>depends.after\<close> is absent or satisfies \<open>timebase + after < now\<close>
  (strictly: an action whose deadline equals \<open>now\<close> is not yet ready), where \<open>now\<close> is the
  clock reading the scheduler takes for that action: the reading numbered by the count
  of earlier actions of the list for which the clock was read.
\<close>

theorem GetNextLogicalJob_ready_list:
  "fst (GetNextLogicalJob timebase all gs executed clock) =
   map fst (filter (\<lambda>(action, k). ready timebase gs executed (clock k) action)
             (zip all (readingIndex gs executed 0 all)))"
  by (simp add: GetNextLogicalJob_def Let_def loop_reading)

lemma ready_second_waiting:
  "ready tb gs ex now secondWaitingAction = (ex ''c'' = None \<and> tb + 5 < now)"
  by (simp add: ready_def plainAction_def secondWaitingAction_def)

lemma consults_examples:
  "consultsClock gs Map.empty waitingAction" "consultsClock gs Map.empty secondWaitingAction"
  "\<not> consultsClock gs ex (plainAction n)"
  by (simp_all add: consultsClock_def waitingAction_def secondWaitingAction_def plainAction_def)

theorem GetNextLogicalJob_ready_list_witness:
  "fst (GetNextLogicalJob 0 [plainAction ''a'', waitingAction, secondWaitingAction] emptyView
        Map.empty (laterClock 5 6)) = [plainAction ''a'', secondWaitingAction]"
  using GetNextLogicalJob_ready_list [of 0 "[plainAction ''a'', waitingAction, secondWaitingAction]"
      emptyView Map.empty "laterClock 5 6"]
  by (simp add: consults_examples ready_plain ready_waiting ready_second_waiting laterClock_def)

lemma spec_ready_waiting:
  "spec_ready tb gs ex now waitingAction = (ex ''b'' = None \<and> tb + 5 \<le> now)"
  by (simp add: spec_ready_def plainAction_def waitingAction_def)

lemma waiting_alone:
  "GetNextLogicalJob tb [waitingAction] gs Map.empty (fixedClock now) =
   (if tb + 5 < now then ([waitingAction], 0) else ([], tb + 5))"
  by (simp add: GetNextLogicalJob_def GetNextLogicalJob_step_def timeOK_def
      successOK_def runningOK_def waitingAction_def plainAction_def fixedClock_def IsZero_def Let_def)

text \<open>
  Claim C1 as stated fails when the deadline equals the clock reading: the action meets
  the stated condition \<open>timebase + after \<le> now\<close> and is left out of the ready list.
\<close>

theorem GetNextLogicalJob_deadline_counterexample:
  "spec_ready 0 emptyView Map.empty 5 waitingAction \<and>
   waitingAction \<notin> set (fst (GetNextLogicalJob 0 [waitingAction] emptyView Map.empty (fixedClock 5)))"
  by (simp add: spec_ready_waiting waiting_alone)










section \<open>Properties of the time scheduler\<close>

lemma missedLoop_counter:
  "starts \<le> 100 \<Longrightarrow> missedLoop sched cur t starts lastMissed = (lm, n, aborted) \<Longrightarrow>
   starts \<le> n \<and> n \<le> 101 \<and> aborted = (n = 101)"
proof (induction sched cur t starts lastMissed rule: missedLoop.induct)
  case (1 sched cur t starts lastMissed)
  show ?case
  proof (cases "cur < t")
    case True
    with "1.prems" show ?thesis by simp
  next
    case False
    note notafter = False
    show ?thesis
    proof (cases "starts + 1 > 100")
      case True
      with notafter "1.prems" show ?thesis by simp
    next
      case False
      with notafter "1.prems"
      have "missedLoop sched cur (sched t) (starts + 1) t = (lm, n, aborted)" by simp
      with "1.IH" [OF notafter False] False
      have "starts + 1 \<le> n \<and> n \<le> 101 \<and> aborted = (n = 101)" by simp
      then show ?thesis by simp
    qed
  qed
qed

lemma missedLoop_abort:
  "starts \<le> 100 \<Longrightarrow> 0 \<le> starts \<Longrightarrow>
   snd (snd (missedLoop sched cur t starts lastMissed)) =
   (\<forall>i \<le> nat (100 - starts). (sched ^^ i) t \<le> cur)"
proof (induction sched cur t starts lastMissed rule: missedLoop.induct)
  case (1 sched cur t starts lastMissed)
  show ?case
  proof (cases "cur < t")
    case True
    then have "\<not> (sched ^^ 0) t \<le> cur" by simp
    then have "\<not> (\<forall>i \<le> nat (100 - starts). (sched ^^ i) t \<le> cur)" by blast
    with True show ?thesis by simp
  next
    case False
    note notafter = False
    show ?thesis
    proof (cases "starts + 1 > 100")
      case True
      with "1.prems" have "nat (100 - starts) = 0" by simp
      with notafter True show ?thesis by simp
    next
      case False
      from False "1.prems" have n: "nat (100 - starts) = Suc (nat (100 - (starts + 1)))" by simp
      have "snd (snd (missedLoop sched cur (sched t) (starts + 1) t)) =
        (\<forall>i \<le> nat (100 - (starts + 1)). (sched ^^ i) (sched t) \<le> cur)"
        using "1.IH" [OF notafter False] False "1.prems" by simp
      also have "\<dots> = (\<forall>i \<le> nat (100 - (starts + 1)). (sched ^^ Suc i) t \<le> cur)"
        by (simp only: funpow_Suc_right o_apply)
      also have "\<dots> = (\<forall>i \<le> nat (100 - starts). (sched ^^ i) t \<le> cur)"
      proof
        assume h: "\<forall>i \<le> nat (100 - (starts + 1)). (sched ^^ Suc i) t \<le> cur"
        show "\<forall>i \<le> nat (100 - starts). (sched ^^ i) t \<le> cur"
        proof (intro allI impI)
          fix i assume i: "i \<le> nat (100 - starts)"
          show "(sched ^^ i) t \<le> cur"
          proof (cases i)
            case 0
            with notafter show ?thesis by simp
          next
            case (Suc j)
            with i n have "j \<le> nat (100 - (starts + 1))" by simp
            with h Suc show ?thesis by blast
          qed
        qed
      next
        assume h: "\<forall>i \<le> nat (100 - starts). (sched ^^ i) t \<le> cur"
        show "\<forall>i \<le> nat (100 - (starts + 1)). (sched ^^ Suc i) t \<le> cur"
        proof (intro allI impI)
          fix i assume "i \<le> nat (100 - (starts + 1))"
          with n have "Suc i \<le> nat (100 - starts)" by simp
          with h show "(sched ^^ Suc i) t \<le> cur" by blast
        qed
      qed
      finally show ?thesis using notafter False
        by (simp del: missedLoop.simps add: missedLoop.simps [of sched cur t starts lastMissed])
    qed
  qed
qed


lemma missedLoop_abort_start:
  "snd (snd (missedLoop sched cur (sched earliest) 0 0)) =
   (\<forall>i < 101. (sched ^^ Suc i) earliest \<le> cur)"
proof -
  have "snd (snd (missedLoop sched cur (sched earliest) 0 0)) =
     (\<forall>i \<le> nat (100 - 0). (sched ^^ i) (sched earliest) \<le> cur)"
    by (rule missedLoop_abort) simp_all
  also have "\<dots> = (\<forall>i \<le> 100. (sched ^^ Suc i) earliest \<le> cur)"
    by (simp only: funpow_Suc_right o_apply) simp
  also have "\<dots> = (\<forall>i < 101. (sched ^^ Suc i) earliest \<le> cur)"
    by (simp add: less_Suc_eq_le [symmetric] del: funpow.simps)
  finally show ?thesis .
qed

text \<open>
  Claim C5, amended. For every cron schedule (any \<open>Next\<close> function), earliest time and
  clock reading, the missed-run loop of \<open>getNextScheduleTime\<close> terminates after its body
  has run at most 101 times (\<open>starts\<close> is the number of runs of the body); a loop that
  ends normally has run it at most 100 times. The body runs for the 101st time exactly
  when more than 100 start times were missed (the first 101 start times after the
  earliest time are all at or before now); the function then returns the zero time for
  both \<open>lastMissed\<close> and \<open>next\<close> together with the error "too many missed start times",
  never a normal result, and it returns the normal result in every other case.
\<close>

theorem getNextScheduleTime_missed_bound:
  assumes parse: "ParseStandard cron = Inr sched"
    and spec: "scheduler = Some \<lparr>Cron = Some cron, StartingDeadlineSeconds = deadline\<rparr>"
    and earliest: "earliest = earliestTime creation lastScheduleTime deadline (clock 0)"
    and due: "earliest \<le> clock 0"
    and loop: "missedLoop sched (clock 0) (sched earliest) 0 0 = (lastMissed, starts, aborted)"
  shows "starts \<le> 101 \<and> (aborted \<longleftrightarrow> starts = 101) \<and> (\<not> aborted \<longrightarrow> starts \<le> 100) \<and>
    (aborted \<longleftrightarrow> (\<forall>i < 101. (sched ^^ Suc i) earliest \<le> clock 0)) \<and>
    getNextScheduleTime ParseStandard creation scheduler lastScheduleTime clock =
      (if \<forall>i < 101. (sched ^^ Suc i) earliest \<le> clock 0
       then (0, 0, Some TooManyMissedStartTimes)
       else (lastMissed, sched (clock 0), None))"
proof -
  have counter: "0 \<le> starts \<and> starts \<le> 101 \<and> aborted = (starts = 101)"
    using missedLoop_counter [OF _ loop] by simp
  have ab: "aborted = (\<forall>i < 101. (sched ^^ Suc i) earliest \<le> clock 0)"
    using missedLoop_abort_start [of sched "clock 0" earliest] loop by simp
  have "getNextScheduleTime ParseStandard creation scheduler lastScheduleTime clock =
      (if aborted then (0, 0, Some TooManyMissedStartTimes)
       else (lastMissed, sched (clock 0), None))"
    using parse spec earliest [symmetric] due loop
    by (simp add: getNextScheduleTime_def Let_def del: missedLoop.simps)
  with counter ab show ?thesis by (simp del: funpow.simps)
qed

lemma everyTick_funpow: "(everyTick ^^ i) t = t + int i"
  by (induction i) (simp_all add: everyTick_def)


lemma tick_all_missed: "(\<forall>i < 101. (everyTick ^^ Suc i) 0 \<le> now) = (101 \<le> now)"
proof -
  have "(\<forall>i < 101. (everyTick ^^ Suc i) 0 \<le> now) = (\<forall>i < 101. int (Suc i) \<le> now)"
    by (simp only: everyTick_funpow) simp
  also have "\<dots> = (101 \<le> now)"
  proof
    assume "\<forall>i < 101. int (Suc i) \<le> now"
    then have "100 < (101::nat) \<longrightarrow> int (Suc 100) \<le> now" by (rule spec)
    then show "101 \<le> now" by simp
  next
    assume h: "101 \<le> now"
    show "\<forall>i < 101. int (Suc i) \<le> now"
    proof (intro allI impI)
      fix i :: nat assume "i < 101"
      then have "int (Suc i) \<le> 101" by simp
      with h show "int (Suc i) \<le> now" by linarith
    qed
  qed
  finally show ?thesis .
qed

theorem getNextScheduleTime_missed_bound_witness:
  "getNextScheduleTime parseTick 0 (Some tickSpec) None (fixedClock 200) =
     (0, 0, Some TooManyMissedStartTimes) \<and>
   snd (snd (getNextScheduleTime parseTick 0 (Some tickSpec) None (fixedClock 100))) = None"
proof -
  have e: "0 = earliestTime 0 None None (fixedClock now 0)" for now
    by (simp add: earliestTime_def)
  have p: "parseTick ''tick'' = Inr everyTick"
    by (simp add: parseTick_def)
  have sp: "Some tickSpec = Some \<lparr>Cron = Some ''tick'', StartingDeadlineSeconds = None\<rparr>"
    by (simp add: tickSpec_def)
  have l: "missedLoop everyTick (fixedClock now 0) (everyTick 0) 0 0 =
      (fst (missedLoop everyTick (fixedClock now 0) (everyTick 0) 0 0),
       fst (snd (missedLoop everyTick (fixedClock now 0) (everyTick 0) 0 0)),
       snd (snd (missedLoop everyTick (fixedClock now 0) (everyTick 0) 0 0)))" for now
    by (simp del: missedLoop.simps)
  have d: "0 \<le> fixedClock 200 0" "0 \<le> fixedClock 100 0"
    by (simp_all add: fixedClock_def)
  have a: "getNextScheduleTime parseTick 0 (Some tickSpec) None (fixedClock 200) =
     (0, 0, Some TooManyMissedStartTimes)"
    using getNextScheduleTime_missed_bound [of parseTick "''tick''" everyTick "Some tickSpec"
        None 0 0 None "fixedClock 200", OF p sp e d(1) l]
    by (simp only: tick_all_missed) (simp add: fixedClock_def)
  have b: "snd (snd (getNextScheduleTime parseTick 0 (Some tickSpec) None (fixedClock 100))) = None"
    using getNextScheduleTime_missed_bound [of parseTick "''tick''" everyTick "Some tickSpec"
        None 0 0 None "fixedClock 100", OF p sp e d(2) l]
    by (simp only: tick_all_missed) (simp add: fixedClock_def)
  from a b show ?thesis by (rule conjI)
qed

text \<open>
  Claim C5 as stated fails in its bound: for a schedule that fires at every tick, with
  200 start times missed, the body of the loop runs 101 times, not at most 100, before
  the error is returned.
\<close>

theorem missedLoop_body_runs_counterexample:
  "fst (snd (missedLoop everyTick 200 (everyTick 0) 0 0)) = 101 \<and>
   snd (snd (missedLoop everyTick 200 (everyTick 0) 0 0))"
proof -
  obtain lm n aborted where l: "missedLoop everyTick 200 (everyTick 0) 0 0 = (lm, n, aborted)"
    by (cases "missedLoop everyTick 200 (everyTick 0) 0 0")
  have "snd (snd (missedLoop everyTick 200 (everyTick 0) 0 0)) = (101 \<le> (200::int))"
    by (simp only: missedLoop_abort_start tick_all_missed)
  with l have a: aborted by (simp del: missedLoop.simps)
  have "0 \<le> n \<and> n \<le> 101 \<and> aborted = (n = 101)"
    using missedLoop_counter [OF _ l] by simp
  with a have "n = 101" by simp
  with a l show ?thesis by (simp del: missedLoop.simps)
qed

text \<open>
  The starting deadline takes part through an \<open>int64\<close> product: a deadline of
  \<open>10^10\<close> seconds wraps to a positive duration, the earliest time lies after now, and the
  function returns no missed run.
\<close>

lemma earliestTime_deadline_wraps:
  "earliestTime 0 None (Some 10000000000) 0 = 8446744073709551616"
  by (simp add: earliestTime_def int64_def Second_def IsZero_def)

lemma getNextScheduleTime_deadline_wraps:
  "getNextScheduleTime parseTick 0
     (Some \<lparr>Cron = Some ''tick'', StartingDeadlineSeconds = Some 10000000000\<rparr>) None
     (fixedClock 0) = (0, 1, None)"
  by (simp add: getNextScheduleTime_def parseTick_def earliestTime_deadline_wraps fixedClock_def
      everyTick_def del: missedLoop.simps)

section \<open>Properties of the DAG validators\<close>

lemma PrepareDependencyGraph_loop_distinct:
  "PrepareDependencyGraph_loop qn idx xs = Inr idx' \<Longrightarrow>
   distinct (map ActionName xs) \<and> (\<forall>x \<in> set xs. idx (ActionName x) = None)"
proof (induction xs arbitrary: idx)
  case Nil
  show ?case by simp
next
  case (Cons a xs)
  from Cons.prems have free: "idx (ActionName a) = None"
    by (auto split: if_splits option.splits)
  with Cons.prems
  have rest: "PrepareDependencyGraph_loop qn (idx(ActionName a \<mapsto> a)) xs = Inr idx'"
    by (auto split: if_splits)
  from Cons.IH [OF rest]
  have d: "distinct (map ActionName xs)"
    and n: "\<forall>x \<in> set xs. (idx(ActionName a \<mapsto> a)) (ActionName x) = None" by simp_all
  from n have notin: "ActionName a \<notin> ActionName ` set xs"
    by (auto split: if_splits)
  from n have "\<forall>x \<in> set xs. idx (ActionName x) = None"
    by (auto split: if_splits)
  with d notin free show ?case by simp
qed

text \<open>
  \<open>PrepareDependencyGraph\<close> refuses every action list with two actions of the same name,
  and so does \<open>Validate\<close> of the test plan controller, whatever the collaborators answer.
\<close>

lemma PrepareDependencyGraph_rejects_duplicates:
  "\<not> distinct (map ActionName actionList) \<Longrightarrow>
   \<exists>err. PrepareDependencyGraph IsQualifiedName actionList = Inl err"
proof (cases "PrepareDependencyGraph IsQualifiedName actionList")
  case (Inl err)
  then show ?thesis by blast
next
  case (Inr idx)
  then have "distinct (map ActionName actionList)"
    unfolding PrepareDependencyGraph_def by (blast dest: PrepareDependencyGraph_loop_distinct)
  moreover assume "\<not> distinct (map ActionName actionList)"
  ultimately show ?thesis by blast
qed

lemma Validate_rejects_duplicates:
  assumes "\<not> distinct (map ActionName actions)"
  shows "\<exists>err. Validate IsQualifiedName FiredStateErr ParseAlertExpr CheckTemplateRef order
     actions clusterView = Invalid err"
proof -
  from assms obtain err where "PrepareDependencyGraph IsQualifiedName actions = Inl err"
    using PrepareDependencyGraph_rejects_duplicates by blast
  then show ?thesis by (simp add: Validate_def)
qed

lemma Validate_rejects_plain_duplicate:
  "Validate (acceptNames [''a'']) noStateError noAlertError noTemplateError order
     [plainAction ''a'', plainAction ''a''] emptyView = Invalid (DuplicateAction ''a'')"
  by (simp add: Validate_def PrepareDependencyGraph_def isSupported_def acceptNames_def
      plainAction_def ActionService_def)

lemma plain_checks:
  "CheckDependencies (plainAction n) index = Valid"
  "CheckAssertions fs pa (plainAction n) state = Valid"
  "ValidateDAG_delete (plainAction n) index = Valid"
  by (simp_all add: CheckDependencies_def CheckAssertions_def ValidateDAG_delete_def
      plainAction_def ExprIsZero_def ActionService_def)

text \<open>
  Claim C6 fails for \<open>ValidateDAG\<close> of the workflow controller, whose comment promises
  that no two actions have the same name: its first loop overwrites the index entry
  instead of failing on the collision, and a plan with two well-formed actions of the
  same name \<open>a\<close> passes validation.
\<close>

theorem ValidateDAG_accepts_duplicate_names:
  "ValidateDAG (acceptNames [''a'']) noStateError noAlertError
     [plainAction ''a'', plainAction ''a''] emptyView = Valid \<and>
   map ActionName [plainAction ''a'', plainAction ''a''] = [''a'', ''a'']"
  by (simp add: ValidateDAG_def acceptNames_def plain_checks) (simp add: plainAction_def)

section \<open>Properties of the lifecycle of grouped jobs\<close>










lemma pending_cr [simp]:
  "Until (Spec (groupCR phase services until scheduled)) = until"
  "Services (Spec (groupCR phase services until scheduled)) = services"
  "Phase (Lifecycle (Status (groupCR phase services until scheduled))) = phase"
  "ScheduledJobs (Status (groupCR phase services until scheduled)) = scheduled"
  by (simp_all add: groupCR_def)

lemma viewOf_counts [simp]:
  "NumPendingJobs (viewOf p r s f) = p" "NumRunningJobs (viewOf p r s f) = r"
  "NumSuccessfulJobs (viewOf p r s f) = s" "NumFailedJobs (viewOf p r s f) = f"
  "FailedList (viewOf p r s f) = []"
  by (simp_all add: viewOf_def emptyView_def)









text \<open>
  Claim C4. When the current phase is Success or Failed, \<open>calculateLifecycle\<close> of the stop
  controller returns the status unchanged and leaves the resource as it is,
  \<open>calculateLifecycle\<close> of the call controller reports no change and leaves the resource as
  it is, and that of the telemetry controller returns the lifecycle unchanged: for every
  view and every answer of the collaborators.
\<close>

theorem terminal_phases_absorbing:
  assumes "Phase (Lifecycle (Status cr)) = PhaseSuccess \<or> Phase (Lifecycle (Status cr)) = PhaseFailed"
  shows "stop_calculateLifecycle FiredAlert FiredState cr gs = Inr (Status cr, cr) \<and>
    call_calculateLifecycle IsTrue GroupedJobs gs cr = (False, cr) \<and>
    telemetry_calculateLifecycle (Lifecycle (Status cr)) gs = Inr (Lifecycle (Status cr))"
  using assms
  by (auto simp: stop_calculateLifecycle_def call_calculateLifecycle_def
      telemetry_calculateLifecycle_def Let_def)

theorem terminal_phases_absorbing_witness:
  "stop_calculateLifecycle noAlert stateNotFired (groupCR PhaseFailed [''a'', ''b''] None 1)
       (viewOf 0 0 2 0) =
     Inr (Status (groupCR PhaseFailed [''a'', ''b''] None 1), groupCR PhaseFailed [''a'', ''b''] None 1) \<and>
   call_calculateLifecycle untilNotTrue keepLifecycle (viewOf 0 0 2 0)
       (groupCR PhaseSuccess [''a'', ''b''] None 1) =
     (False, groupCR PhaseSuccess [''a'', ''b''] None 1)"
  using terminal_phases_absorbing [of "groupCR PhaseFailed [''a'', ''b''] None 1" noAlert
      stateNotFired "viewOf 0 0 2 0" untilNotTrue keepLifecycle]
    terminal_phases_absorbing [of "groupCR PhaseSuccess [''a'', ''b''] None 1" noAlert
      stateNotFired "viewOf 0 0 2 0" untilNotTrue keepLifecycle]
  by simp


lemma stop_until_bound:
  assumes "Until (Spec cr) = Some until" "Phase (Lifecycle (Status cr)) = PhasePending \<or>
      Phase (Lifecycle (Status cr)) = PhaseRunning"
    "\<not> snd (FiredAlert cr)" "FiredState (StateExpr until) gs = (info, False, None)"
    "stop_calculateLifecycle FiredAlert FiredState cr gs = Inr (status, cr')"
  shows "(Phase (Lifecycle status) = PhaseFailed \<and> Reason (Lifecycle status) = ''MaxInstancesReached'') =
     (Services (Spec cr) \<noteq> [] \<and> ScheduledJobs (Status cr) > int (length (Services (Spec cr))))"
  using assms
  by (auto simp: stop_calculateLifecycle_def Let_def newLifecycle_def setCondition_def
      zeroLifecycle_def split: if_splits)

lemma call_until_bound:
  assumes "\<not> ExprIsZero (Until (Spec cr))" "Phase (Lifecycle (Status cr)) = PhasePending \<or>
      Phase (Lifecycle (Status cr)) = PhaseRunning"
    "\<not> IsStatusConditionTrue (Conditions (Lifecycle (Status cr))) ConditionAllJobsAreScheduled"
    "IsTrue (Until (Spec cr)) view cr = (False, info)"
    "call_calculateLifecycle IsTrue GroupedJobs view cr = (changed, cr')"
  shows "(Phase (Lifecycle (Status cr')) = PhaseFailed \<and>
      Reason (Lifecycle (Status cr')) = ''MaxInstancesReached'') =
     (Services (Spec cr) \<noteq> [] \<and> ScheduledJobs (Status cr) > int (length (Services (Spec cr))))"
  using assms
  by (auto simp: call_calculateLifecycle_def Let_def setCondition_def split: if_splits)

text \<open>
  Claim C7 fails at its own example: with services \<open>[a, b, c]\<close>, an \<open>Until\<close> condition that
  has not fired and \<open>ScheduledJobs = 3\<close>, both \<open>calculateLifecycle\<close> functions return
  phase Pending with reason \<open>SpawnUntilEvent\<close>. Their test is
  \<open>ScheduledJobs > len(Services)\<close> (lemmas \<open>stop_until_bound\<close>, \<open>call_until_bound\<close>).
\<close>

theorem until_bound_not_reached_at_len:
  "stop_calculateLifecycle noAlert stateNotFired (untilCR 3) emptyView =
     Inr ((Status (untilCR 3))\<lparr>Lifecycle := newLifecycle PhasePending ''SpawnUntilEvent''
             ''Assertion is not yet satisfied.''\<rparr>, untilCR 3) \<and>
   call_calculateLifecycle untilNotTrue keepLifecycle emptyView (untilCR 3) =
     (True, (untilCR 3)\<lparr>Status := (Status (untilCR 3))\<lparr>Lifecycle :=
        (Lifecycle (Status (untilCR 3)))\<lparr>Phase := PhasePending, Reason := ''SpawnUntilEvent'',
           Message := ''Assertion is not yet satisfied.''\<rparr>\<rparr>\<rparr>)"
  by (simp add: stop_calculateLifecycle_def call_calculateLifecycle_def untilCR_def groupCR_def
      noAlert_def stateNotFired_def untilNotTrue_def HasStateExpr_def HasMetricsExpr_def
      ExprIsZero_def zeroLifecycle_def Let_def)

section \<open>Properties of the decoration of a service pod\<close>

text \<open>
  Every monitor with one container has its volumes appended twice, by the two
  consecutive \<open>append\<close> statements.
\<close>

lemma importAgents_appends_twice:
  assumes "GetServiceSpec cr monRef = Inr monSpec" "SpecContainers monSpec = [sidecar]"
  shows "importAgents GetServiceSpec cr (monRef # rest) =
    importAgents GetServiceSpec
      (cr\<lparr>ServiceSpec := (ServiceSpec cr)\<lparr>
          SpecContainers := SpecContainers (ServiceSpec cr) @ [sidecar],
          Volumes := Volumes (ServiceSpec cr) @ Volumes monSpec @ Volumes monSpec\<rparr>\<rparr>) rest"
  using assms by (simp add: Let_def)

lemma importAgents_single:
  assumes "GetServiceSpec cr monRef = Inr monSpec" "SpecContainers monSpec = [sidecar]"
  shows "Volumes (ServiceSpec (snd (importAgents GetServiceSpec cr [monRef]))) =
    Volumes (ServiceSpec cr) @ Volumes monSpec @ Volumes monSpec"
  using assms by (simp add: Let_def)

text \<open>
  Claim C9 fails: for a service that imports one monitor whose template has the single
  volume \<open>data\<close>, \<open>decoratePod\<close> succeeds and leaves two copies of that volume in the
  volumes of the service, not one.
\<close>

theorem decoratePod_appends_volumes_twice:
  "fst (decoratePod setFieldNever parseAny lookupMonitor monitoredService) = None \<and>
   Volumes monitorSpec = [\<lparr>VolumeName = ''data''\<rparr>] \<and>
   Volumes (ServiceSpec (snd (decoratePod setFieldNever parseAny lookupMonitor monitoredService))) =
     [\<lparr>VolumeName = ''data''\<rparr>, \<lparr>VolumeName = ''data''\<rparr>]"
  by (simp add: decoratePod_def monitoredService_def noDecorators_def lookupMonitor_def
      monitorSpec_def Let_def)

end
